theory Spec2Isabelle
  imports Complex_Main "HOL-Library.Word"
begin

section \<open>The renderer of the TNM090 particle system\<close>

text \<open>
  This theory embeds \<^verbatim>\<open>class Renderer\<close> (renderer.h, renderer.cpp): the camera
  controller (\<^verbatim>\<open>rotate\<close>, \<^verbatim>\<open>zoom\<close>, \<^verbatim>\<open>scaledMouse\<close>), the readiness
  predicates, \<^verbatim>\<open>paintGL\<close> and \<^verbatim>\<open>updateData\<close>.

  Numbers: the source computes in \<^verbatim>\<open>float\<close>. The embedding computes in \<^typ>\<open>real\<close>, so
  it states what the formulas of the source compute without rounding; a division by zero
  yields \<open>0\<close> in HOL where the source yields an infinity or a NaN, and the theorems that
  pass through \<^verbatim>\<open>glm::normalize\<close> say where they need a non-zero vector. OpenGL object
  names (\<^verbatim>\<open>GLuint\<close>) are 32-bit words, \<^verbatim>\<open>GLsizei\<close> is a signed 32-bit integer, and
  a pointer is an \<open>option\<close> (\<^verbatim>\<open>nullptr\<close> is \<open>None\<close>).
\<close>

subsection \<open>glm: vectors, quaternions, matrices\<close>

text \<open>
  Modelled from the spec: the glm library (\<^verbatim>\<open>glm::vec2\<close>, \<^verbatim>\<open>vec3\<close>, \<^verbatim>\<open>quat\<close>,
  \<^verbatim>\<open>mat4\<close> and the functions on them) is not under src/. The spec names the operations
  the camera uses (\<open>normalize\<close>, \<open>dot\<close>, \<open>cross\<close>, \<open>asin\<close>, \<open>acos\<close>, a rotation by an
  angle about an axis, \<open>lookAt\<close>, \<open>perspective\<close>); the definitions below spell out the
  formulas glm uses for them, componentwise.
\<close>

datatype vec2 = Vec2 (x2: real) (y2: real)

datatype vec3 = Vec3 (vx: real) (vy: real) (vz: real)

datatype vec4 = Vec4 real real real real

datatype quat = Quat (qw: real) (qx: real) (qy: real) (qz: real)

text \<open>A \<^verbatim>\<open>glm::mat4\<close> is column-major: four columns.\<close>

datatype mat4 = Mat4 vec4 vec4 vec4 vec4

fun sub2 :: "vec2 \<Rightarrow> vec2 \<Rightarrow> vec2" where
  "sub2 (Vec2 a b) (Vec2 c d) = Vec2 (a - c) (b - d)"

fun scale2 :: "vec2 \<Rightarrow> real \<Rightarrow> vec2" where
  "scale2 (Vec2 a b) k = Vec2 (a * k) (b * k)"

fun min2 :: "vec2 \<Rightarrow> vec2 \<Rightarrow> vec2" where
  "min2 (Vec2 a b) (Vec2 c d) = Vec2 (min a c) (min b d)"

fun max2 :: "vec2 \<Rightarrow> vec2 \<Rightarrow> vec2" where
  "max2 (Vec2 a b) (Vec2 c d) = Vec2 (max a c) (max b d)"

fun asin2 :: "vec2 \<Rightarrow> vec2" where
  "asin2 (Vec2 a b) = Vec2 (arcsin a) (arcsin b)"

fun sub3 :: "vec3 \<Rightarrow> vec3 \<Rightarrow> vec3" where
  "sub3 (Vec3 a b c) (Vec3 d e f) = Vec3 (a - d) (b - e) (c - f)"

fun add3 :: "vec3 \<Rightarrow> vec3 \<Rightarrow> vec3" where
  "add3 (Vec3 a b c) (Vec3 d e f) = Vec3 (a + d) (b + e) (c + f)"

fun scale3 :: "real \<Rightarrow> vec3 \<Rightarrow> vec3" where
  "scale3 k (Vec3 a b c) = Vec3 (k * a) (k * b) (k * c)"

fun dot :: "vec3 \<Rightarrow> vec3 \<Rightarrow> real" where
  "dot (Vec3 a b c) (Vec3 d e f) = a * d + b * e + c * f"

fun cross :: "vec3 \<Rightarrow> vec3 \<Rightarrow> vec3" where
  "cross (Vec3 a b c) (Vec3 d e f) = Vec3 (b * f - e * c) (c * d - f * a) (a * e - d * b)"

definition length3 :: "vec3 \<Rightarrow> real" where
  "length3 v = sqrt (dot v v)"

text \<open>
  Modelled from the spec: \<^verbatim>\<open>glm::normalize\<close>, which is not under src/;
  \<^verbatim>\<open>normalize(v)\<close> is \<^verbatim>\<open>v * inversesqrt(dot(v, v))\<close>. For the zero vector the
  source gets NaN components, the definition the zero vector: the two agree on non-zero
  vectors only, and every statement below that goes through \<open>normalize3\<close> either assumes
  that its argument is not the zero vector or evaluates it at a concrete non-zero vector.
\<close>

definition normalize3 :: "vec3 \<Rightarrow> vec3" where
  "normalize3 v = scale3 (1 / sqrt (dot v v)) v"

text \<open>
  Modelled from the spec: \<^verbatim>\<open>glm::angleAxis(angle, axis)\<close>, which is not under src/: the
  rotation by \<open>angle\<close> about \<open>axis\<close>, the angle in radians as \<^verbatim>\<open>rotate\<close> passes it
  (\<^verbatim>\<open>phi will be in [-pi,pi]\<close>), as the quaternion
  \<open>(cos (angle/2), axis * sin (angle/2))\<close>. The axis is not normalised by the function.
\<close>

definition angleAxis :: "real \<Rightarrow> vec3 \<Rightarrow> quat" where
  "angleAxis angle v =
     (let s = sin (angle * (1/2))
      in Quat (cos (angle * (1/2))) (vx v * s) (vy v * s) (vz v * s))"

text \<open>
  Modelled from the spec: glm's \<^verbatim>\<open>operator*(quat, quat)\<close>, which is not under src/: the
  composition of two rotations, the Hamilton product.
\<close>

fun quat_mul :: "quat \<Rightarrow> quat \<Rightarrow> quat" where
  "quat_mul (Quat pw px py pz) (Quat rw rx ry rz) =
     Quat (pw * rw - px * rx - py * ry - pz * rz)
          (pw * rx + px * rw + py * rz - pz * ry)
          (pw * ry + py * rw + pz * rx - px * rz)
          (pw * rz + pz * rw + px * ry - py * rx)"

text \<open>
  Modelled from the spec: glm's \<^verbatim>\<open>operator*(quat, vec3)\<close>, which is not under src/: the
  rotation applied to a vector; with \<open>u = (q.x, q.y, q.z)\<close> it is
  \<open>v + 2 * q.w * cross u v + 2 * cross u (cross u v)\<close>.
\<close>

definition quat_rotate :: "quat \<Rightarrow> vec3 \<Rightarrow> vec3" where
  "quat_rotate q v =
     (let u = Vec3 (qx q) (qy q) (qz q);
          uv = cross u v;
          uuv = cross u uv
      in add3 (add3 v (scale3 (2 * qw q) uv)) (scale3 2 uuv))"

fun mat_col :: "mat4 \<Rightarrow> nat \<Rightarrow> vec4" where
  "mat_col (Mat4 c0 c1 c2 c3) i = (if i = 0 then c0 else if i = 1 then c1 else if i = 2 then c2 else c3)"

fun vec4_at :: "vec4 \<Rightarrow> nat \<Rightarrow> real" where
  "vec4_at (Vec4 a b c d) i = (if i = 0 then a else if i = 1 then b else if i = 2 then c else d)"

definition mat_at :: "mat4 \<Rightarrow> nat \<Rightarrow> nat \<Rightarrow> real" where
  "mat_at m col row = vec4_at (mat_col m col) row"

text \<open>
  Modelled from the spec: glm's \<^verbatim>\<open>operator*(mat4, mat4)\<close>, which is not under src/: entry
  (col, row) of \<open>a * b\<close> is \<open>\<Sum>k. a[k][row] * b[col][k]\<close>.
\<close>

definition mat_mul_entry :: "mat4 \<Rightarrow> mat4 \<Rightarrow> nat \<Rightarrow> nat \<Rightarrow> real" where
  "mat_mul_entry a b col row =
     mat_at a 0 row * mat_at b col 0 + mat_at a 1 row * mat_at b col 1 +
     mat_at a 2 row * mat_at b col 2 + mat_at a 3 row * mat_at b col 3"

definition mat_mul_col :: "mat4 \<Rightarrow> mat4 \<Rightarrow> nat \<Rightarrow> vec4" where
  "mat_mul_col a b col =
     Vec4 (mat_mul_entry a b col 0) (mat_mul_entry a b col 1)
          (mat_mul_entry a b col 2) (mat_mul_entry a b col 3)"

definition mat_mul :: "mat4 \<Rightarrow> mat4 \<Rightarrow> mat4" where
  "mat_mul a b = Mat4 (mat_mul_col a b 0) (mat_mul_col a b 1) (mat_mul_col a b 2) (mat_mul_col a b 3)"

text \<open>
  Modelled from the spec: \<^verbatim>\<open>glm::lookAt(eye, center, up)\<close>, which is not under src/: the
  right-handed view matrix.
\<close>

definition lookAt :: "vec3 \<Rightarrow> vec3 \<Rightarrow> vec3 \<Rightarrow> mat4" where
  "lookAt eye center up =
     (let f = normalize3 (sub3 center eye);
          s = normalize3 (cross f up);
          u = cross s f
      in Mat4 (Vec4 (vx s) (vx u) (- vx f) 0)
              (Vec4 (vy s) (vy u) (- vy f) 0)
              (Vec4 (vz s) (vz u) (- vz f) 0)
              (Vec4 (- dot s eye) (- dot u eye) (dot f eye) 1))"

text \<open>
  Modelled from the spec: \<^verbatim>\<open>glm::perspectiveFov(fov, width, height, zNear, zFar)\<close>, which
  is not under src/: the perspective projection; the field of view is given in degrees
  (\<^verbatim>\<open>_fieldOfView = 45.f; // in degrees\<close>).
\<close>

definition perspectiveFov :: "real \<Rightarrow> real \<Rightarrow> real \<Rightarrow> real \<Rightarrow> real \<Rightarrow> mat4" where
  "perspectiveFov fov width height zNear zFar =
     (let rad = fov * pi / 180;
          h = cos (rad * (1/2)) / sin (rad * (1/2));
          w = h * height / width
      in Mat4 (Vec4 w 0 0 0)
              (Vec4 0 h 0 0)
              (Vec4 0 0 (- (zFar + zNear) / (zFar - zNear)) (- 1))
              (Vec4 0 0 (- (2 * zFar * zNear) / (zFar - zNear)) 0))"

subsection \<open>OpenGL and the asset loader, as far as the renderer sees them\<close>

datatype Texture = Texture string

datatype ProgramObject = ProgramObject string

text \<open>
  The OpenGL commands the modelled functions issue are recorded in order. The three draw
  routines bind their program and textures, set their uniforms and issue one draw command;
  each is recorded as one entry.
\<close>

datatype gl_call =
    GlClear
  | GlGenBuffers "32 word"
  | GlGenTextures "32 word"
  | GlEnableVertexAttribArray nat
  | GlBindBuffer "32 word"
  | GlBufferData nat "real list"
  | GlVertexAttribPointer nat nat
  | GlBindTexture "32 word"
  | GlTexImage2D Texture
  | UploadTexture Texture
  | DrawGround
  | DrawSkybox
  | DrawParticles

text \<open>
  What the program cannot decide itself: whether GLEW initialises, which textures load
  (\<^verbatim>\<open>loadTexture\<close> returns \<^verbatim>\<open>nullptr\<close> on failure), whether a program compiles and
  links.
\<close>

record environment =
  glewInit :: bool
  loadTexture :: "string \<Rightarrow> Texture option"
  compileShaderObjects :: "string \<Rightarrow> bool"
  linkProgramObject :: "string \<Rightarrow> bool"

subsection \<open>The state of a Renderer\<close>

record renderer =
  canvasWidth :: int
  canvasHeight :: int
  glCalls :: "gl_call list"
  glNextName :: "32 word"
  oldMousePosition :: vec2
  limitCameraPosition :: bool
  position :: vec3
  focus :: vec3
  upVector :: vec3
  viewProjectionMatrix :: mat4
  lightPosition :: vec3
  particleData :: "vec3 list option"
  renderGround :: bool
  groundVBO :: "32 word"
  groundTexture :: "Texture option"
  groundTextureNormal :: "Texture option"
  groundProgram :: "ProgramObject option"
  groundProgramReady :: bool
  renderSkybox :: bool
  skyboxVBO :: "32 word"
  skyboxIBO :: "32 word"
  numSkyboxIndices :: int
  skyboxTexture :: "32 word"
  skyboxProgram :: "ProgramObject option"
  skyboxProgramReady :: bool
  particleVBO :: "32 word"
  particleTexture :: "Texture option"
  particleProgram :: "ProgramObject option"
  particleProgramReady :: bool
  numberOfParticles :: int

subsection \<open>The constants of renderer.cpp\<close>

definition skyboxSize :: real where "skyboxSize = 5"

definition rotationalFactor :: real where "rotationalFactor = 60"

definition minimumHeight :: real where "minimumHeight = 1/10"

definition minimumDistance :: real where "minimumDistance = 1/4"

definition maximumDistance :: real where "maximumDistance = skyboxSize - 1/10"

definition minimumTilt :: real where "minimumTilt = 1/10"

definition maximumTilt :: real where "maximumTilt = pi - minimumTilt"

definition defaultPosition :: vec3 where "defaultPosition = Vec3 (- 1) 0 1"

definition defaultFocus :: vec3 where "defaultFocus = Vec3 0 0 0"

definition defaultUp :: vec3 where "defaultUp = Vec3 0 0 1"

definition fieldOfView :: real where "fieldOfView = 45"

definition nearPlane :: real where "nearPlane = 1/10"

definition farPlane :: real where "farPlane = 500"

definition defaultLightPosition :: vec3 where "defaultLightPosition = Vec3 0 2 10"

subsection \<open>Construction\<close>

text \<open>
  The constructor's initialiser list. The members it does not name are default-constructed
  glm values (zero vectors, the identity matrix); \<^verbatim>\<open>_numSkyboxIndices\<close> is written by
  \<^verbatim>\<open>generateSkyboxBuffer\<close> before it is read. The widget has no size yet.
\<close>

definition Renderer :: renderer where
  "Renderer =
     \<lparr> canvasWidth = 0, canvasHeight = 0, glCalls = [], glNextName = 1,
       oldMousePosition = Vec2 0 0,
       limitCameraPosition = True,
       position = Vec3 0 0 0, focus = Vec3 0 0 0, upVector = Vec3 0 0 0,
       viewProjectionMatrix = Mat4 (Vec4 1 0 0 0) (Vec4 0 1 0 0) (Vec4 0 0 1 0) (Vec4 0 0 0 1),
       lightPosition = Vec3 0 0 0,
       particleData = None,
       renderGround = True,
       groundVBO = 0, groundTexture = None, groundTextureNormal = None,
       groundProgram = None, groundProgramReady = False,
       renderSkybox = True,
       skyboxVBO = 0, skyboxIBO = 0, numSkyboxIndices = 0, skyboxTexture = 0,
       skyboxProgram = None, skyboxProgramReady = False,
       particleVBO = 0, particleTexture = None, particleProgram = None,
       particleProgramReady = False,
       numberOfParticles = 0 \<rparr>"

text \<open>\<^verbatim>\<open>GUI::createRenderer\<close>: \<^verbatim>\<open>_renderer->setFixedSize(QSize(800, 600))\<close>.\<close>

definition createRenderer :: renderer where
  "createRenderer = Renderer\<lparr>canvasWidth := 800, canvasHeight := 600\<rparr>"

subsection \<open>OpenGL commands\<close>

definition gl :: "gl_call \<Rightarrow> renderer \<Rightarrow> renderer" where
  "gl c s = s\<lparr>glCalls := glCalls s @ [c]\<rparr>"

text \<open>
  Modelled from the spec: OpenGL is not under src/. \<^verbatim>\<open>glGenBuffers(1, &name)\<close> and
  \<^verbatim>\<open>glGenTextures(1, &name)\<close> hand out the next unused object name; the caller stores
  it. Every other command is only recorded.
\<close>

definition glGenBuffers :: "renderer \<Rightarrow> 32 word \<times> renderer" where
  "glGenBuffers s =
     (glNextName s, s\<lparr>glNextName := glNextName s + 1,
                       glCalls := glCalls s @ [GlGenBuffers (glNextName s)]\<rparr>)"

definition glGenTextures :: "renderer \<Rightarrow> 32 word \<times> renderer" where
  "glGenTextures s =
     (glNextName s, s\<lparr>glNextName := glNextName s + 1,
                       glCalls := glCalls s @ [GlGenTextures (glNextName s)]\<rparr>)"

subsection \<open>Initialisation of the three subsystems\<close>

definition generateGroundBuffer :: "renderer \<Rightarrow> renderer" where
  "generateGroundBuffer s =
     (let s1 = (if groundVBO s = 0
                then (let (n, s') = glGenBuffers s in s'\<lparr>groundVBO := n\<rparr>) else s);
          s2 = gl (GlEnableVertexAttribArray 0) s1;
          s3 = gl (GlBindBuffer (groundVBO s2)) s2;
          vertices = [- skyboxSize, - skyboxSize, 0,
                      skyboxSize, - skyboxSize, 0,
                      skyboxSize, skyboxSize, 0,
                      - skyboxSize, skyboxSize, 0];
          s4 = gl (GlBufferData (3 * 4 * 4) vertices) s3
      in gl (GlVertexAttribPointer 0 3) s4)"

definition uploadIfLoaded :: "Texture option \<Rightarrow> renderer \<Rightarrow> renderer" where
  "uploadIfLoaded t s = (case t of None \<Rightarrow> s | Some tex \<Rightarrow> gl (UploadTexture tex) s)"

definition initializeGround :: "environment \<Rightarrow> renderer \<Rightarrow> renderer" where
  "initializeGround env s =
     (let s1 = generateGroundBuffer s;
          s2 = s1\<lparr>groundTexture := loadTexture env ''dirt.jpg''\<rparr>;
          s3 = uploadIfLoaded (groundTexture s2) s2;
          s4 = s3\<lparr>groundTextureNormal := loadTexture env ''dirt_n.jpg''\<rparr>;
          s5 = uploadIfLoaded (groundTextureNormal s4) s4;
          s6 = s5\<lparr>groundProgram := Some (ProgramObject ''Ground'')\<rparr>;
          groundCompileSuccess = compileShaderObjects env ''Ground''
      in if groundCompileSuccess
         then s6\<lparr>groundProgramReady := linkProgramObject env ''Ground''\<rparr>
         else s6)"

definition generateSkyboxBuffer :: "renderer \<Rightarrow> renderer" where
  "generateSkyboxBuffer s =
     (let s1 = (if skyboxVBO s = 0
                then (let (n, s') = glGenBuffers s in s'\<lparr>skyboxVBO := n\<rparr>) else s);
          s2 = gl (GlEnableVertexAttribArray 0) s1;
          s3 = gl (GlBindBuffer (skyboxVBO s2)) s2;
          vertices = [- skyboxSize, skyboxSize, skyboxSize,
                      - skyboxSize, - skyboxSize, skyboxSize,
                      skyboxSize, - skyboxSize, skyboxSize,
                      skyboxSize, skyboxSize, skyboxSize,
                      - skyboxSize, skyboxSize, - skyboxSize,
                      - skyboxSize, - skyboxSize, - skyboxSize,
                      skyboxSize, - skyboxSize, - skyboxSize,
                      skyboxSize, skyboxSize, - skyboxSize];
          s4 = gl (GlBufferData (24 * 4) vertices) s3;
          s5 = gl (GlVertexAttribPointer 0 3) s4;
          s6 = (if skyboxIBO s5 = 0
                then (let (n, s') = glGenBuffers s5 in s'\<lparr>skyboxIBO := n\<rparr>) else s5);
          indices = [0, 1, 2, 3,  3, 2, 6, 7,  7, 6, 5, 4,  4, 5, 1, 0,  0, 3, 7, 4,  1, 2, 6, 5];
          s7 = s6\<lparr>numSkyboxIndices := 24\<rparr>;
          s8 = gl (GlBindBuffer (skyboxIBO s7)) s7
      in gl (GlBufferData (24 * 2) indices) s8)"

definition initializeSkybox :: "environment \<Rightarrow> renderer \<Rightarrow> renderer" where
  "initializeSkybox env s =
     (let s1 = generateSkyboxBuffer s;
          s2 = s1\<lparr>skyboxProgram := Some (ProgramObject ''Skybox'')\<rparr>;
          skyboxCompileSuccess = compileShaderObjects env ''Skybox'';
          s3 = (if skyboxCompileSuccess
                then s2\<lparr>skyboxProgramReady := linkProgramObject env ''Skybox''\<rparr>
                else s2);
          s4 = (let (n, s') = glGenTextures s3 in s'\<lparr>skyboxTexture := n\<rparr>);
          s5 = gl (GlBindTexture (skyboxTexture s4)) s4;
          xPos = loadTexture env ''xpos.png'';
          xNeg = loadTexture env ''xneg.png'';
          yPos = loadTexture env ''ypos.png'';
          yNeg = loadTexture env ''yneg.png'';
          zPos = loadTexture env ''zpos.png'';
          zNeg = loadTexture env ''zneg.png''
      in if xPos = None \<or> xNeg = None \<or> yPos = None \<or> yNeg = None \<or>
            zPos = None \<or> zNeg = None
         then s5
         else gl (GlTexImage2D (the zNeg)) (gl (GlTexImage2D (the zPos))
             (gl (GlTexImage2D (the yNeg)) (gl (GlTexImage2D (the yPos))
             (gl (GlTexImage2D (the xNeg)) (gl (GlTexImage2D (the xPos)) s5))))))"

definition initializeParticle :: "environment \<Rightarrow> renderer \<Rightarrow> renderer" where
  "initializeParticle env s =
     (let s1 = s\<lparr>particleTexture := loadTexture env ''particle.png''\<rparr>;
          s2 = uploadIfLoaded (particleTexture s1) s1;
          s3 = s2\<lparr>particleProgram := Some (ProgramObject ''Particle'')\<rparr>;
          particleCompileSuccess = compileShaderObjects env ''Particle''
      in if particleCompileSuccess
         then s3\<lparr>particleProgramReady := linkProgramObject env ''Particle''\<rparr>
         else s3)"

subsection \<open>The view-projection matrix\<close>

definition updateViewProjectionMatrix :: "renderer \<Rightarrow> renderer" where
  "updateViewProjectionMatrix s =
     (let viewMatrix = lookAt (position s) (focus s) (upVector s);
          projectionMatrix = perspectiveFov fieldOfView
             (real_of_int (canvasWidth s)) (real_of_int (canvasHeight s)) nearPlane farPlane
      in s\<lparr>viewProjectionMatrix := mat_mul projectionMatrix viewMatrix\<rparr>)"

definition initializeGL :: "environment \<Rightarrow> renderer \<Rightarrow> renderer" where
  "initializeGL env s =
     (if \<not> glewInit env then s
      else
        let s1 = initializeGround env s;
            s2 = initializeSkybox env s1;
            s3 = initializeParticle env s2;
            s4 = s3\<lparr>position := defaultPosition, focus := defaultFocus,
                     upVector := defaultUp, lightPosition := defaultLightPosition\<rparr>
        in updateViewProjectionMatrix s4)"

subsection \<open>Readiness and drawing\<close>

definition groundIsReady :: "renderer \<Rightarrow> bool" where
  "groundIsReady s \<longleftrightarrow>
     groundVBO s \<noteq> 0 \<and> groundProgram s \<noteq> None \<and> groundProgramReady s \<and>
     groundTexture s \<noteq> None \<and> groundTextureNormal s \<noteq> None"

definition skyboxIsReady :: "renderer \<Rightarrow> bool" where
  "skyboxIsReady s \<longleftrightarrow>
     skyboxVBO s \<noteq> 0 \<and> skyboxIBO s \<noteq> 0 \<and>
     skyboxProgram s \<noteq> None \<and> skyboxProgramReady s \<and> skyboxTexture s \<noteq> 0"

definition particlesAreReady :: "renderer \<Rightarrow> bool" where
  "particlesAreReady s \<longleftrightarrow>
     particleVBO s \<noteq> 0 \<and> particleProgram s \<noteq> None \<and> particleProgramReady s"

definition drawGround :: "renderer \<Rightarrow> renderer" where
  "drawGround s = gl DrawGround s"

definition drawSkybox :: "renderer \<Rightarrow> renderer" where
  "drawSkybox s = gl DrawSkybox s"

definition drawParticles :: "renderer \<Rightarrow> renderer" where
  "drawParticles s = gl DrawParticles s"

definition paintGL :: "renderer \<Rightarrow> renderer" where
  "paintGL s =
     (let s0 = gl GlClear s;
          s1 = (if renderGround s0 \<and> groundIsReady s0 then drawGround s0 else s0);
          s2 = (if renderSkybox s1 \<and> skyboxIsReady s1 then drawSkybox s1 else s1)
      in if particlesAreReady s2 then drawParticles s2 else s2)"

definition showGroundRendering :: "bool \<Rightarrow> renderer \<Rightarrow> renderer" where
  "showGroundRendering showRendering s = s\<lparr>renderGround := showRendering\<rparr>"

definition showSkyboxRendering :: "bool \<Rightarrow> renderer \<Rightarrow> renderer" where
  "showSkyboxRendering showRendering s = s\<lparr>renderSkybox := showRendering\<rparr>"

text \<open>The slot \<^verbatim>\<open>limitCameraPosition(bool)\<close>; the member it sets has the same name.\<close>

definition limitCameraPosition_slot :: "bool \<Rightarrow> renderer \<Rightarrow> renderer" where
  "limitCameraPosition_slot limitDistance s = s\<lparr>limitCameraPosition := limitDistance\<rparr>"

subsection \<open>The particle data\<close>

definition setData :: "vec3 list option \<Rightarrow> renderer \<Rightarrow> renderer" where
  "setData d s = s\<lparr>particleData := d\<rparr>"

text \<open>\<^verbatim>\<open>static_cast<GLsizei>\<close> of a \<^verbatim>\<open>size_t\<close>: the low 32 bits, read as signed.\<close>

definition to_GLsizei :: "nat \<Rightarrow> int" where
  "to_GLsizei n = sint (word_of_nat n :: 32 word)"

definition floats :: "vec3 list \<Rightarrow> real list" where
  "floats d = concat (map (\<lambda>v. [vx v, vy v, vz v]) d)"

definition updateData :: "renderer \<Rightarrow> renderer" where
  "updateData s =
     (case particleData s of
        None \<Rightarrow> s\<lparr>numberOfParticles := 0\<rparr>
      | Some d \<Rightarrow>
          if length d = 0 then s\<lparr>numberOfParticles := 0\<rparr>
          else
            let s1 = (if particleVBO s = 0
                      then (let (n, s') = glGenBuffers s in s'\<lparr>particleVBO := n\<rparr>) else s);
                s2 = gl (GlEnableVertexAttribArray 0) s1;
                s3 = gl (GlBindBuffer (particleVBO s2)) s2;
                s4 = gl (GlBufferData (length d * 3 * 4) (floats d)) s3;
                s5 = gl (GlVertexAttribPointer 0 3) s4
            in s5\<lparr>numberOfParticles := to_GLsizei (length d)\<rparr>)"

subsection \<open>Mouse handling\<close>

datatype ivec2 = IVec2 int int

datatype buttons = LeftButton | RightButton | OtherButtons

text \<open>
  \<^verbatim>\<open>scaledMouse\<close> as written: the second component divides by
  \<^verbatim>\<open>canvasSize.height() - 1.f\<close>.
\<close>

fun scaledMouse :: "renderer \<Rightarrow> ivec2 \<Rightarrow> vec2" where
  "scaledMouse s (IVec2 mx my) =
     Vec2 (real_of_int mx * 2 / real_of_int (canvasWidth s) - 1)
          (real_of_int my * 2 / (real_of_int (canvasHeight s) - 1))"

text \<open>
  \<^verbatim>\<open>Renderer::rotate\<close> is \<open>rotate_mouse\<close> here and \<^verbatim>\<open>glm::normalize\<close> is
  \<open>normalize3\<close>. The two angles \<^verbatim>\<open>phi\<close> of \<^verbatim>\<open>rotate\<close> and its
  \<^verbatim>\<open>currentTilt\<close> are definitions of their own.
\<close>

definition rotate_phi :: "renderer \<Rightarrow> vec2 \<Rightarrow> vec2" where
  "rotate_phi s newMouse =
     (let t = scale2 (sub2 (oldMousePosition s) newMouse) rotationalFactor;
          t1 = min2 t (Vec2 1 1);
          t2 = max2 t1 (Vec2 (- 1) (- 1))
      in scale2 (asin2 t2) 2)"

definition currentTilt :: "renderer \<Rightarrow> real" where
  "currentTilt s = arccos (dot (normalize3 (upVector s)) (normalize3 (position s)))"

definition clampHeight :: "vec3 \<Rightarrow> vec3" where
  "clampHeight p = Vec3 (vx p) (vy p) (max (vz p) minimumHeight)"

definition rotate_mouse :: "renderer \<Rightarrow> vec2 \<Rightarrow> renderer" where
  "rotate_mouse s newMouse =
     (if newMouse = oldMousePosition s then s
      else
        let phi = rotate_phi s newMouse;
            rotationQuat = angleAxis (x2 phi) (upVector s);
            closeToTop = (currentTilt s < minimumTilt \<and> y2 phi < 0);
            closeToBottom = (currentTilt s > maximumTilt \<and> y2 phi > 0)
        in if closeToBottom \<or> closeToTop then s
           else
             let tiltQuat = angleAxis (y2 phi) (normalize3 (cross (upVector s) (position s)));
                 s1 = s\<lparr>position := quat_rotate (quat_mul tiltQuat rotationQuat) (position s)\<rparr>;
                 s2 = (if limitCameraPosition s1
                       then s1\<lparr>position := clampHeight (position s1)\<rparr> else s1)
             in updateViewProjectionMatrix s2)"

text \<open>The two distance tests of \<^verbatim>\<open>zoom\<close>, in the order of the source.\<close>

definition clampDistance :: "vec3 \<Rightarrow> vec3 \<Rightarrow> vec3" where
  "clampDistance positionVector p =
     (let p1 = (if length3 p > maximumDistance
                then scale3 maximumDistance (normalize3 positionVector) else p)
      in if length3 p1 < minimumDistance
         then scale3 minimumDistance (normalize3 positionVector) else p1)"

definition zoom :: "renderer \<Rightarrow> vec2 \<Rightarrow> renderer" where
  "zoom s newMouse =
     (if newMouse = oldMousePosition s then s
      else
        let t = y2 newMouse - y2 (oldMousePosition s);
            positionVector = sub3 (position s) (focus s);
            s1 = s\<lparr>position := scale3 (1 + t) positionVector\<rparr>;
            s2 = (if limitCameraPosition s1
                  then s1\<lparr>position := clampHeight (clampDistance positionVector (position s1))\<rparr>
                  else s1)
        in updateViewProjectionMatrix s2)"

definition mousePressEvent :: "ivec2 \<Rightarrow> renderer \<Rightarrow> renderer" where
  "mousePressEvent ev s = s\<lparr>oldMousePosition := scaledMouse s ev\<rparr>"

definition mouseMoveEvent :: "ivec2 \<Rightarrow> buttons \<Rightarrow> renderer \<Rightarrow> renderer" where
  "mouseMoveEvent ev b s =
     (let newMouse = scaledMouse s ev;
          s1 = (if b = LeftButton then rotate_mouse s newMouse
                else if b = RightButton then zoom s newMouse
                else s)
      in s1\<lparr>oldMousePosition := newMouse\<rparr>)"

subsection \<open>Concrete environments and renderers\<close>

text \<open>An environment in which every asset loads and every program compiles and links.\<close>

definition env_ok :: environment where
  "env_ok = \<lparr> glewInit = True, loadTexture = (\<lambda>p. Some (Texture p)),
              compileShaderObjects = (\<lambda>_. True), linkProgramObject = (\<lambda>_. True) \<rparr>"

text \<open>The same, but \<^verbatim>\<open>particle.png\<close> does not load.\<close>

definition env_noParticleTexture :: environment where
  "env_noParticleTexture =
     env_ok\<lparr>loadTexture := (\<lambda>p. if p = ''particle.png'' then None else Some (Texture p))\<rparr>"

text \<open>
  The program's start-up in that environment: \<^verbatim>\<open>createRenderer\<close>, \<^verbatim>\<open>initializeGL\<close>,
  \<^verbatim>\<open>setData\<close> with one particle, and the first \<^verbatim>\<open>updateData\<close> of the timer.
\<close>

definition startedWithoutParticleTexture :: renderer where
  "startedWithoutParticleTexture =
     updateData (setData (Some [Vec3 0 0 1]) (initializeGL env_noParticleTexture createRenderer))"

text \<open>The renderer after a start-up in which everything loads: the default pose.\<close>

definition started :: renderer where
  "started = initializeGL env_ok createRenderer"

text \<open>
  The zoom scenario: limit switched off, previous mouse position \<open>(0, 0.5)\<close>.
\<close>

definition zoomScenario :: renderer where
  "zoomScenario = (limitCameraPosition_slot False started)\<lparr>oldMousePosition := Vec2 0 (1/2)\<rparr>"


text \<open>
  The test \<^verbatim>\<open>closeToBottom || closeToTop\<close> on which \<^verbatim>\<open>rotate\<close> returns early.
\<close>

definition closeToPole :: "renderer \<Rightarrow> vec2 \<Rightarrow> bool" where
  "closeToPole s m \<longleftrightarrow>
     (currentTilt s < minimumTilt \<and> y2 (rotate_phi s m) < 0) \<or>
     (currentTilt s > maximumTilt \<and> y2 (rotate_phi s m) > 0)"

text \<open>
  The default pose after a press of the left button on the pixel \<open>(400, 100)\<close> and a move
  of the mouse to the pixel \<open>(400, 102)\<close>, two rows further down.
\<close>

definition tiltDragged :: renderer where
  "tiltDragged =
     mouseMoveEvent (IVec2 400 102) LeftButton (mousePressEvent (IVec2 400 100) started)"

text \<open>A particle vector of \<open>2^31\<close> elements.\<close>

definition manyParticles :: "vec3 list" where
  "manyParticles = replicate (2 ^ 31) (Vec3 0 0 0)"

section \<open>Properties\<close>

subsection \<open>Recorded OpenGL commands\<close>

lemma gl_simps:
  "glCalls (gl c s) = glCalls s @ [c]"
  "renderGround (gl c s) = renderGround s"
  "renderSkybox (gl c s) = renderSkybox s"
  "groundIsReady (gl c s) = groundIsReady s"
  "skyboxIsReady (gl c s) = skyboxIsReady s"
  "particlesAreReady (gl c s) = particlesAreReady s"
  by (simp_all add: gl_def groundIsReady_def skyboxIsReady_def particlesAreReady_def)

subsection \<open>Drawing\<close>

text \<open>
  C6. One \<^verbatim>\<open>paintGL\<close> clears the frame buffer and then draws the ground, the skybox
  and the particles, in this order: the ground exactly when \<^verbatim>\<open>_renderGround\<close> is set
  and the ground is ready, the skybox exactly when \<^verbatim>\<open>_renderSkybox\<close> is set and the
  skybox is ready, the particles exactly when the particles are ready, whatever the two
  toggles are.
\<close>

theorem paintGL_draw_order:
  "glCalls (paintGL s) =
     glCalls s @ [GlClear]
       @ (if renderGround s \<and> groundIsReady s then [DrawGround] else [])
       @ (if renderSkybox s \<and> skyboxIsReady s then [DrawSkybox] else [])
       @ (if particlesAreReady s then [DrawParticles] else [])"
  unfolding paintGL_def Let_def drawGround_def drawSkybox_def drawParticles_def
  by (simp add: gl_simps)

subsection \<open>Stationary drags\<close>

text \<open>
  C7. A \<^verbatim>\<open>rotate\<close> or a \<^verbatim>\<open>zoom\<close> whose new mouse position equals the stored
  \<^verbatim>\<open>_oldMousePosition\<close> returns the renderer as it was: position, focus, up vector and
  the cached view-projection matrix are unchanged.
\<close>

theorem stationary_drag_unchanged:
  "rotate_mouse s (oldMousePosition s) = s \<and> zoom s (oldMousePosition s) = s"
  by (simp add: rotate_mouse_def zoom_def)

subsection \<open>Readiness\<close>

lemmas startup_defs =
  initializeGL_def initializeGround_def initializeSkybox_def
  initializeParticle_def generateGroundBuffer_def generateSkyboxBuffer_def
  glGenBuffers_def glGenTextures_def gl_def uploadIfLoaded_def
  updateViewProjectionMatrix_def createRenderer_def Renderer_def Let_def

text \<open>
  C2. \<^verbatim>\<open>particlesAreReady\<close> does not look at \<^verbatim>\<open>_particleTexture\<close>. When
  \<^verbatim>\<open>particle.png\<close> fails to load and everything else succeeds, the renderer after
  start-up has a null particle texture, \<^verbatim>\<open>particlesAreReady\<close> is true, and
  \<^verbatim>\<open>paintGL\<close> goes on to \<^verbatim>\<open>drawParticles\<close> (which dereferences the texture).
  \<^verbatim>\<open>groundIsReady\<close> does test both of its textures.
\<close>

theorem particlesAreReady_without_texture:
  "particleTexture startedWithoutParticleTexture = None
   \<and> particlesAreReady startedWithoutParticleTexture
   \<and> last (glCalls (paintGL startedWithoutParticleTexture)) = DrawParticles"
  unfolding startedWithoutParticleTexture_def
  by (simp add: startup_defs env_noParticleTexture_def env_ok_def
      updateData_def setData_def particlesAreReady_def paintGL_def drawParticles_def
      drawGround_def drawSkybox_def groundIsReady_def skyboxIsReady_def)

subsection \<open>Mouse coordinates\<close>

text \<open>
  C4. On the 800 x 600 canvas the pixel (400, 450) is scaled to (0, 900/599): the second
  component is \<open>2 * y / (height - 1)\<close>, not \<open>2 * y / height - 1\<close>, and leaves \<open>[-1, 1]\<close>.
\<close>

theorem scaledMouse_outside_range:
  "scaledMouse createRenderer (IVec2 400 450) = Vec2 0 (900 / 599)
   \<and> \<not> y2 (scaledMouse createRenderer (IVec2 400 450)) \<le> 1"
  by (simp add: createRenderer_def Renderer_def)

subsection \<open>Particle data\<close>

lemma to_GLsizei_small: "n < 2 ^ 31 \<Longrightarrow> to_GLsizei n = int n"
proof -
  assume n: "n < 2 ^ 31"
  have "to_GLsizei n = sint (word_of_int (int n) :: 32 word)"
    by (simp add: to_GLsizei_def)
  also have "\<dots> = (int n + 2 ^ 31) mod 2 ^ 32 - 2 ^ 31"
    using int_word_sint [of "int n", where ?'a = 32] by simp
  also have "\<dots> = int n"
    using n by simp
  finally show ?thesis .
qed

lemma updateData_empty:
  "particleData s = None \<or> particleData s = Some [] \<Longrightarrow>
   updateData s = s\<lparr>numberOfParticles := 0\<rparr>"
  by (auto simp: updateData_def)

lemma updateData_nonempty:
  assumes "particleData s = Some d" "d \<noteq> []"
  shows "glCalls (updateData s) =
           glCalls s @ (if particleVBO s = 0 then [GlGenBuffers (glNextName s)] else [])
             @ [GlEnableVertexAttribArray 0,
                GlBindBuffer (if particleVBO s = 0 then glNextName s else particleVBO s),
                GlBufferData (length d * 3 * 4) (floats d),
                GlVertexAttribPointer 0 3]"
    and "numberOfParticles (updateData s) = to_GLsizei (length d)"
  using assms by (simp_all add: updateData_def Let_def gl_def glGenBuffers_def)

lemma length_manyParticles: "length manyParticles = 2 ^ 31"
  unfolding manyParticles_def by (rule length_replicate)

lemma to_GLsizei_wraps: "to_GLsizei (2 ^ 31) = - (2 ^ 31)"
proof -
  have "to_GLsizei (2 ^ 31) = sint (word_of_int (2 ^ 31) :: 32 word)"
    by (simp add: to_GLsizei_def)
  also have "\<dots> = (2 ^ 31 + 2 ^ 31) mod 2 ^ 32 - 2 ^ 31"
    using int_word_sint [of "2 ^ 31", where ?'a = 32] by simp
  also have "\<dots> = - (2 ^ 31)"
    by simp
  finally show ?thesis .
qed

text \<open>
  C5, as the code has it. With no particle data, or with an empty vector,
  \<^verbatim>\<open>updateData\<close> only sets \<^verbatim>\<open>_numberOfParticles\<close> to 0: no OpenGL command is issued and
  \<^verbatim>\<open>_particleVBO\<close> keeps its value. Otherwise it creates the buffer if there is none,
  uploads all \<open>3 * length d\<close> floats of the data and stores the length converted to a
  \<^verbatim>\<open>GLsizei\<close>, which is the length itself for every vector of fewer than \<open>2^31\<close>
  particles.
\<close>

theorem updateData_resync:
  "(particleData s = None \<or> particleData s = Some [] \<longrightarrow>
      updateData s = s\<lparr>numberOfParticles := 0\<rparr>)
   \<and> (particleData s = Some d \<and> d \<noteq> [] \<longrightarrow>
      glCalls (updateData s) =
        glCalls s @ (if particleVBO s = 0 then [GlGenBuffers (glNextName s)] else [])
          @ [GlEnableVertexAttribArray 0,
             GlBindBuffer (if particleVBO s = 0 then glNextName s else particleVBO s),
             GlBufferData (length d * 3 * 4) (floats d),
             GlVertexAttribPointer 0 3]
      \<and> numberOfParticles (updateData s) = to_GLsizei (length d)
      \<and> (length d < 2 ^ 31 \<longrightarrow> numberOfParticles (updateData s) = int (length d)))"
  using updateData_empty [of s] updateData_nonempty [of s d] to_GLsizei_small [of "length d"]
  by metis

theorem updateData_resync_witness:
  "updateData createRenderer = createRenderer\<lparr>numberOfParticles := 0\<rparr>
   \<and> updateData (setData (Some []) createRenderer)
       = (setData (Some []) createRenderer)\<lparr>numberOfParticles := 0\<rparr>
   \<and> glCalls (updateData (setData (Some [Vec3 1 2 3, Vec3 4 5 6]) createRenderer))
       = [GlGenBuffers 1, GlEnableVertexAttribArray 0, GlBindBuffer 1,
          GlBufferData 24 [1, 2, 3, 4, 5, 6], GlVertexAttribPointer 0 3]
   \<and> numberOfParticles (updateData (setData (Some [Vec3 1 2 3, Vec3 4 5 6]) createRenderer)) = 2"
  using updateData_resync [of createRenderer "[]"]
    updateData_resync [of "setData (Some []) createRenderer" "[]"]
    updateData_resync [of "setData (Some [Vec3 1 2 3, Vec3 4 5 6]) createRenderer"
                          "[Vec3 1 2 3, Vec3 4 5 6]"]
  by (simp add: setData_def createRenderer_def Renderer_def floats_def)

text \<open>
  C5, as the claim states it, fails: for a vector of \<open>2^31\<close> particles the count stored
  is not the length of the vector but \<open>- 2^31\<close>, the length converted to the signed 32-bit
  \<^verbatim>\<open>GLsizei\<close>.
\<close>

theorem updateData_count_counterexample:
  "particleData (setData (Some manyParticles) createRenderer) = Some manyParticles
   \<and> manyParticles \<noteq> []
   \<and> int (length manyParticles) = 2 ^ 31
   \<and> numberOfParticles (updateData (setData (Some manyParticles) createRenderer)) = - (2 ^ 31)"
proof -
  have d: "particleData (setData (Some manyParticles) createRenderer) = Some manyParticles"
    by (simp add: setData_def)
  have n: "manyParticles \<noteq> []"
    using length_manyParticles by auto
  have "numberOfParticles (updateData (setData (Some manyParticles) createRenderer)) =
      to_GLsizei (length manyParticles)"
    using d n by (rule updateData_nonempty(2))
  then have c: "numberOfParticles (updateData (setData (Some manyParticles) createRenderer)) = - (2 ^ 31)"
    by (simp only: length_manyParticles to_GLsizei_wraps)
  have l: "int (length manyParticles) = 2 ^ 31"
    by (simp only: length_manyParticles) simp
  show ?thesis
    using d n l c by blast
qed

subsection \<open>Vectors\<close>

lemma dot_self_nonneg: "0 \<le> dot v v"
  by (cases v) simp

lemma sum_squares3_zero:
  fixes a b c :: real
  assumes "a * a + b * b + c * c = 0"
  shows "a = 0 \<and> b = 0 \<and> c = 0"
proof -
  have "a * a = 0 \<and> b * b = 0 \<and> c * c = 0"
    using assms zero_le_square [of a] zero_le_square [of b] zero_le_square [of c] by linarith
  then show ?thesis by simp
qed

lemma dot_self_zero_iff: "dot v v = 0 \<longleftrightarrow> v = Vec3 0 0 0"
  by (cases v) (auto dest: sum_squares3_zero)

lemma dot_self_pos: "v \<noteq> Vec3 0 0 0 \<Longrightarrow> 0 < dot v v"
  using dot_self_nonneg [of v] dot_self_zero_iff [of v] by linarith

lemma dot_scale3: "dot (scale3 k v) (scale3 k v) = k\<^sup>2 * dot v v"
  by (cases v) (simp add: power2_eq_square algebra_simps)

lemma length3_scale3: "length3 (scale3 k v) = \<bar>k\<bar> * length3 v"
  by (simp add: length3_def dot_scale3 real_sqrt_mult)


lemma length3_pos: "v \<noteq> Vec3 0 0 0 \<Longrightarrow> 0 < length3 v"
  by (simp add: length3_def dot_self_pos)

lemma length3_normalize3: "v \<noteq> Vec3 0 0 0 \<Longrightarrow> length3 (normalize3 v) = 1"
  using length3_pos [of v]
  by (simp add: normalize3_def length3_scale3) (simp add: length3_def)

lemma length3_scale3_normalize3:
  "v \<noteq> Vec3 0 0 0 \<Longrightarrow> length3 (scale3 k (normalize3 v)) = \<bar>k\<bar>"
  by (simp add: length3_scale3 length3_normalize3)

lemma sub3_zero [simp]: "sub3 v (Vec3 0 0 0) = v"
  by (cases v) simp

lemma sub3_eq_zero_iff: "sub3 p f = Vec3 0 0 0 \<longleftrightarrow> p = f"
  by (cases p; cases f) auto

lemma clampDistance_bounds:
  assumes "pv \<noteq> Vec3 0 0 0"
  shows "minimumDistance \<le> length3 (clampDistance pv p) \<and> length3 (clampDistance pv p) \<le> maximumDistance"
  using assms
  by (simp add: clampDistance_def Let_def length3_scale3_normalize3
      minimumDistance_def maximumDistance_def skyboxSize_def)

lemma vz_clampHeight: "minimumHeight \<le> vz (clampHeight p)"
  by (simp add: clampHeight_def)

lemma clampHeight_id: "minimumHeight \<le> vz p \<Longrightarrow> clampHeight p = p"
  by (cases p) (simp add: clampHeight_def)

lemma zoom_fields:
  "focus (zoom s m) = focus s" "upVector (zoom s m) = upVector s"
  "limitCameraPosition (zoom s m) = limitCameraPosition s"
  by (simp_all add: zoom_def Let_def updateViewProjectionMatrix_def)

lemma position_zoom:
  "m \<noteq> oldMousePosition s \<Longrightarrow>
   position (zoom s m) =
     (let pv = sub3 (position s) (focus s);
          p = scale3 (1 + (y2 m - y2 (oldMousePosition s))) pv
      in if limitCameraPosition s then clampHeight (clampDistance pv p) else p)"
  by (simp add: zoom_def Let_def updateViewProjectionMatrix_def)



lemma length3_greater_iff: "0 \<le> c \<Longrightarrow> c < length3 v \<longleftrightarrow> c\<^sup>2 < dot v v"
  using real_sqrt_less_iff [of "c\<^sup>2" "dot v v"] by (simp add: length3_def)



subsection \<open>The renderer after start-up\<close>

lemma started_fields [simp]:
  "position started = Vec3 (- 1) 0 1" "focus started = Vec3 0 0 0"
  "upVector started = Vec3 0 0 1" "limitCameraPosition started"
  "oldMousePosition started = Vec2 0 0"
  by (simp_all add: started_def startup_defs env_ok_def
      defaultPosition_def defaultFocus_def defaultUp_def)

lemma rotate_fields:
  "focus (rotate_mouse s m) = focus s" "upVector (rotate_mouse s m) = upVector s"
  "limitCameraPosition (rotate_mouse s m) = limitCameraPosition s"
  by (simp_all add: rotate_mouse_def Let_def updateViewProjectionMatrix_def)

lemma started_canvas: "canvasWidth started = 800" "canvasHeight started = 600"
  by (simp_all add: started_def startup_defs env_ok_def)

subsection \<open>Zoom\<close>

lemma zoomScenario_fields:
  "position zoomScenario = Vec3 (- 1) 0 1" "focus zoomScenario = Vec3 0 0 0"
  "\<not> limitCameraPosition zoomScenario" "oldMousePosition zoomScenario = Vec2 0 (1/2)"
  by (simp_all add: zoomScenario_def limitCameraPosition_slot_def)


text \<open>
  C8. With \<^verbatim>\<open>_limitCameraPosition\<close> off, a \<^verbatim>\<open>zoom\<close> sets the position to
  \<open>(1 + t) * (position - focus)\<close> with \<open>t = newMouse.y - oldMouse.y\<close> (a stationary zoom
  leaves the position, which is the same when the focus is the origin). With the focus at
  the origin the distance from the focus is multiplied by \<open>\<bar>1 + t\<bar>\<close>; from \<open>(0, 0.5)\<close> to
  \<open>(0, 0.6)\<close> it becomes \<open>1.1\<close> times the old distance.
\<close>

theorem zoom_unlimited:
  assumes "\<not> limitCameraPosition s"
    and "newMouse \<noteq> oldMousePosition s \<or> focus s = Vec3 0 0 0"
  shows "position (zoom s newMouse) =
           scale3 (1 + (y2 newMouse - y2 (oldMousePosition s))) (sub3 (position s) (focus s))
     \<and> (focus s = Vec3 0 0 0 \<longrightarrow>
          length3 (sub3 (position (zoom s newMouse)) (focus (zoom s newMouse))) =
            \<bar>1 + (y2 newMouse - y2 (oldMousePosition s))\<bar> * length3 (sub3 (position s) (focus s)))
     \<and> (focus s = Vec3 0 0 0 \<and> oldMousePosition s = Vec2 0 (1/2) \<and> newMouse = Vec2 0 (3/5) \<longrightarrow>
          length3 (sub3 (position (zoom s newMouse)) (focus (zoom s newMouse))) =
            11/10 * length3 (sub3 (position s) (focus s)))"
proof -
  let ?t = "y2 newMouse - y2 (oldMousePosition s)"
  have p: "position (zoom s newMouse) = scale3 (1 + ?t) (sub3 (position s) (focus s))"
  proof (cases "newMouse = oldMousePosition s")
    case True
    then have "focus s = Vec3 0 0 0" using assms(2) by simp
    then show ?thesis using True by (cases "position s") (simp add: zoom_def)
  next
    case False
    then show ?thesis using assms(1) by (simp add: position_zoom Let_def)
  qed
  have d: "length3 (sub3 (position (zoom s newMouse)) (focus (zoom s newMouse))) =
      \<bar>1 + ?t\<bar> * length3 (sub3 (position s) (focus s))" if "focus s = Vec3 0 0 0"
    using that by (simp add: p zoom_fields length3_scale3)
  show ?thesis
    using p d by auto
qed

theorem zoom_unlimited_witness:
  "\<not> limitCameraPosition zoomScenario
   \<and> Vec2 0 (3/5) \<noteq> oldMousePosition zoomScenario
   \<and> position (zoom zoomScenario (Vec2 0 (3/5))) = Vec3 (- (11/10)) 0 (11/10)
   \<and> length3 (sub3 (position (zoom zoomScenario (Vec2 0 (3/5)))) (focus (zoom zoomScenario (Vec2 0 (3/5)))))
       = 11/10 * length3 (sub3 (position zoomScenario) (focus zoomScenario))"
proof -
  have h: "\<not> limitCameraPosition zoomScenario"
    "Vec2 0 (3/5) \<noteq> oldMousePosition zoomScenario \<or> focus zoomScenario = Vec3 0 0 0"
    by (simp_all add: zoomScenario_fields)
  note z = zoom_unlimited [OF h]
  have "position (zoom zoomScenario (Vec2 0 (3/5))) = Vec3 (- (11/10)) 0 (11/10)"
    using z by (simp add: zoomScenario_fields)
  moreover have "length3 (sub3 (position (zoom zoomScenario (Vec2 0 (3/5))))
        (focus (zoom zoomScenario (Vec2 0 (3/5)))))
       = 11/10 * length3 (sub3 (position zoomScenario) (focus zoomScenario))"
    using z zoomScenario_fields(2,4) by blast
  ultimately show ?thesis
    using h(1) by (simp add: zoomScenario_fields)
qed

text \<open>
  The two clamps in the order of the source: the position before the height clamp has its
  distance from the focus in \<open>[minimumDistance, maximumDistance]\<close>, the height clamp comes
  last, and the distance is not tested again.
\<close>

lemma zoom_distance_then_height:
  assumes "limitCameraPosition s" and "newMouse \<noteq> oldMousePosition s"
    and "focus s = Vec3 0 0 0" and "position s \<noteq> focus s"
  shows "minimumHeight \<le> vz (position (zoom s newMouse))
     \<and> (let pv = sub3 (position s) (focus s);
             q = clampDistance pv (scale3 (1 + (y2 newMouse - y2 (oldMousePosition s))) pv)
         in position (zoom s newMouse) = clampHeight q
            \<and> minimumDistance \<le> length3 q \<and> length3 q \<le> maximumDistance
            \<and> (minimumHeight \<le> vz q \<longrightarrow>
                 minimumDistance \<le> length3 (sub3 (position (zoom s newMouse)) (focus (zoom s newMouse)))
               \<and> length3 (sub3 (position (zoom s newMouse)) (focus (zoom s newMouse))) \<le> maximumDistance))"
proof -
  let ?pv = "sub3 (position s) (focus s)"
  let ?q = "clampDistance ?pv (scale3 (1 + (y2 newMouse - y2 (oldMousePosition s))) ?pv)"
  have pv: "?pv \<noteq> Vec3 0 0 0"
    using assms(4) by (simp add: sub3_eq_zero_iff)
  have p: "position (zoom s newMouse) = clampHeight ?q"
    using assms(1,2) by (simp add: position_zoom Let_def)
  have b: "minimumDistance \<le> length3 ?q \<and> length3 ?q \<le> maximumDistance"
    using clampDistance_bounds [OF pv] .
  have h: "minimumHeight \<le> vz (position (zoom s newMouse))"
    by (simp add: p vz_clampHeight)
  have f: "focus (zoom s newMouse) = Vec3 0 0 0"
    by (simp add: zoom_fields assms(3))
  show ?thesis
    unfolding Let_def using p b h f by (auto simp: clampHeight_id)
qed










subsection \<open>Rotation\<close>

text \<open>
  An update that is not stationary and not stopped by the test on the tilt, for a camera
  that is not on the up axis (where the tilt axis \<open>cross up position\<close> is the zero vector).
\<close>

lemma position_rotate:
  "m \<noteq> oldMousePosition s \<Longrightarrow> \<not> closeToPole s m \<Longrightarrow>
   cross (upVector s) (position s) \<noteq> Vec3 0 0 0 \<Longrightarrow>
   position (rotate_mouse s m) =
     (let p = quat_rotate
                (quat_mul (angleAxis (y2 (rotate_phi s m)) (normalize3 (cross (upVector s) (position s))))
                          (angleAxis (x2 (rotate_phi s m)) (upVector s)))
                (position s)
      in if limitCameraPosition s then clampHeight p else p)"
  by (auto simp: rotate_mouse_def Let_def closeToPole_def updateViewProjectionMatrix_def)

lemma cos_tenth_less: "cos (1/10) < (996/1000 :: real)"
proof -
  have "\<bar>sin (1/20 :: real) - (\<Sum>m<3. sin_coeff m * (1/20) ^ m)\<bar> \<le> inverse (fact 3) * \<bar>1/20\<bar> ^ 3"
    by (rule Maclaurin_sin_bound)
  moreover have "(\<Sum>m<3. sin_coeff m * (1/20 :: real) ^ m) = 1/20"
    by (simp add: numeral_3_eq_3 sin_coeff_def)
  ultimately have "\<bar>sin (1/20 :: real) - 1/20\<bar> \<le> 1/48000"
    by (simp add: fact_numeral power3_eq_cube)
  then have s: "(499/10000 :: real) \<le> sin (1/20)"
    by linarith
  have "(499/10000 :: real)\<^sup>2 \<le> (sin (1/20))\<^sup>2"
    using s by (intro power_mono) simp_all
  moreover have "cos (1/10 :: real) = 1 - 2 * (sin (1/20))\<^sup>2"
    using cos_double_sin [of "1/20 :: real"] by simp
  ultimately show ?thesis
    by (simp add: power2_eq_square)
qed

lemma sqrt2_le: "sqrt 2 \<le> (14143 / 10000 :: real)"
  by (rule real_le_lsqrt) (simp_all add: power2_eq_square)

lemma currentTilt_started: "currentTilt started = pi / 4"
proof -
  have "dot (normalize3 (Vec3 0 0 1)) (normalize3 (Vec3 (- 1) 0 1)) = 1 / sqrt 2"
    by (simp add: normalize3_def)
  also have "\<dots> = cos (pi / 4)"
    by (simp add: cos_45 real_div_sqrt)
  finally have "currentTilt started = arccos (cos (pi / 4))"
    by (simp add: currentTilt_def)
  then show ?thesis
    by (simp add: arccos_cos)
qed

lemma currentTilt_started_in_range:
  "minimumTilt \<le> currentTilt started" "currentTilt started \<le> maximumTilt"
  using pi_ge_two pi_less_4
  by (simp_all add: currentTilt_started minimumTilt_def maximumTilt_def)

text \<open>
  The drag of \<open>tiltDragged\<close>: the two mouse positions are \<open>(0, 200/599)\<close> and
  \<open>(0, 204/599)\<close>, so \<open>t = (0, - 240/599)\<close> and \<open>phi = (0, - 2 * arcsin (240/599))\<close>; the
  tilt axis is \<open>(0, -1, 0)\<close> and the tilt quaternion \<open>(c, 0, k, 0)\<close> with \<open>k = 240/599\<close> and
  \<open>c = sqrt (1 - k\<^sup>2)\<close>.
\<close>

lemma tiltDragged_position:
  fixes k c :: real
  defines "k \<equiv> 240 / 599" and "c \<equiv> sqrt (1 - (240 / 599)\<^sup>2)"
  shows "position tiltDragged = Vec3 (- 1 + 2 * c * k + 2 * k\<^sup>2) 0 (1 + 2 * c * k - 2 * k\<^sup>2)"
proof -
  let ?s = "mousePressEvent (IVec2 400 100) started"
  let ?m = "Vec2 0 (204 / 599)"
  have s: "oldMousePosition ?s = Vec2 0 (200 / 599)" "position ?s = Vec3 (- 1) 0 1"
    "upVector ?s = Vec3 0 0 1" "limitCameraPosition ?s" "currentTilt ?s = pi / 4"
    "canvasWidth ?s = 800" "canvasHeight ?s = 600"
    using currentTilt_started
    by (simp_all add: mousePressEvent_def started_canvas currentTilt_def)
  have m: "scaledMouse ?s (IVec2 400 102) = ?m"
    by (simp add: s)
  have ne: "?m \<noteq> oldMousePosition ?s"
    by (simp add: s)
  have as: "arcsin (- (240 / 599)) = - arcsin (240 / 599 :: real)"
    by (rule arcsin_minus) simp_all
  have phi: "rotate_phi ?s ?m = Vec2 0 (- (arcsin (240 / 599) * 2))"
    by (simp add: rotate_phi_def rotationalFactor_def s as)
  have nc: "\<not> closeToPole ?s ?m"
    using pi_ge_two pi_less_4
    by (simp add: closeToPole_def s minimumTilt_def maximumTilt_def)
  have ax: "cross (upVector ?s) (position ?s) \<noteq> Vec3 0 0 0"
    by (simp add: s)
  have axis: "normalize3 (cross (Vec3 0 0 1) (Vec3 (- 1) 0 1)) = Vec3 0 (- 1) 0"
    by (simp add: normalize3_def)
  have co: "cos (arcsin (240 / 599 :: real)) = c"
    unfolding c_def by (rule cos_arcsin) simp_all
  have tq: "angleAxis (- (arcsin (240 / 599) * 2)) (Vec3 0 (- 1) 0) = Quat c 0 k 0"
    by (simp add: angleAxis_def Let_def co k_def)
  have rq: "angleAxis 0 (Vec3 0 0 1) = Quat 1 0 0 0"
    by (simp add: angleAxis_def)
  have qm: "quat_mul (Quat c 0 k 0) (Quat 1 0 0 0) = Quat c 0 k 0"
    by simp
  have r: "quat_rotate (Quat c 0 k 0) (Vec3 (- 1) 0 1) =
      Vec3 (- 1 + 2 * c * k + 2 * k\<^sup>2) 0 (1 + 2 * c * k - 2 * k\<^sup>2)"
    by (simp add: quat_rotate_def Let_def power2_eq_square algebra_simps)
  have c0: "0 \<le> c"
    unfolding c_def by (simp add: power2_eq_square)
  have z: "minimumHeight \<le> 1 + 2 * c * k - 2 * k\<^sup>2"
    using c0 by (simp add: minimumHeight_def k_def power2_eq_square)
  have ch: "clampHeight (Vec3 (- 1 + 2 * c * k + 2 * k\<^sup>2) 0 (1 + 2 * c * k - 2 * k\<^sup>2)) =
      Vec3 (- 1 + 2 * c * k + 2 * k\<^sup>2) 0 (1 + 2 * c * k - 2 * k\<^sup>2)"
    using z by (simp add: clampHeight_def)
  have q: "quat_rotate
        (quat_mul (angleAxis (y2 (rotate_phi ?s ?m)) (normalize3 (cross (upVector ?s) (position ?s))))
                  (angleAxis (x2 (rotate_phi ?s ?m)) (upVector ?s)))
        (position ?s) = Vec3 (- 1 + 2 * c * k + 2 * k\<^sup>2) 0 (1 + 2 * c * k - 2 * k\<^sup>2)"
    by (simp only: phi s vec2.sel axis tq rq qm r)
  have pr: "position (rotate_mouse ?s ?m) =
      Vec3 (- 1 + 2 * c * k + 2 * k\<^sup>2) 0 (1 + 2 * c * k - 2 * k\<^sup>2)"
    using position_rotate [OF ne nc ax] s(4) unfolding Let_def q ch by simp
  have td: "tiltDragged = (rotate_mouse ?s ?m)\<lparr>oldMousePosition := ?m\<rparr>"
    unfolding tiltDragged_def mouseMoveEvent_def Let_def m by simp
  have "position ((rotate_mouse ?s ?m)\<lparr>oldMousePosition := ?m\<rparr>) = position (rotate_mouse ?s ?m)"
    by simp
  then show ?thesis
    unfolding td pr .
qed

lemma vx_tiltDragged: "0 < vx (position tiltDragged)"
proof -
  have "(547 / 599 :: real) \<le> sqrt (1 - (240 / 599)\<^sup>2)"
    by (rule real_le_rsqrt) (simp add: power2_eq_square)
  then show ?thesis
    by (simp add: tiltDragged_position power2_eq_square)
qed

lemma currentTilt_tiltDragged: "currentTilt tiltDragged < minimumTilt"
proof -
  define k :: real where "k = 240 / 599"
  define c :: real where "c = sqrt (1 - (240 / 599)\<^sup>2)"
  define x where "x = - 1 + 2 * c * k + 2 * k\<^sup>2"
  define z where "z = 1 + 2 * c * k - 2 * k\<^sup>2"
  have p: "position tiltDragged = Vec3 x 0 z"
    unfolding x_def z_def k_def c_def by (rule tiltDragged_position)
  have u: "upVector tiltDragged = Vec3 0 0 1"
    by (simp add: tiltDragged_def mouseMoveEvent_def Let_def rotate_fields mousePressEvent_def)
  have c2: "c\<^sup>2 = 1 - k\<^sup>2"
    unfolding c_def k_def by (simp add: power2_eq_square)
  have "(547 / 599 :: real) \<le> c"
    unfolding c_def by (rule real_le_rsqrt) (simp add: power2_eq_square)
  then have "1 + 2 * (547 / 599) * k - 2 * k\<^sup>2 \<le> z"
    unfolding z_def k_def by simp
  then have zl: "506161 / 358801 \<le> z"
    unfolding k_def by (simp add: power2_eq_square)
  have "x\<^sup>2 + z\<^sup>2 = 2 + 8 * (c\<^sup>2 * k\<^sup>2) + 8 * (k\<^sup>2 * k\<^sup>2) - 8 * k\<^sup>2"
    unfolding x_def z_def by (simp add: power2_eq_square algebra_simps)
  also have "\<dots> = 2"
    unfolding c2 by (simp add: algebra_simps)
  finally have d: "x * x + z * z = 2"
    by (simp add: power2_eq_square)
  have t: "currentTilt tiltDragged = arccos (z / sqrt 2)"
    by (simp add: currentTilt_def p u normalize3_def d)
  have "0 \<le> x * x"
    by simp
  then have "z * z \<le> 2"
    using d by linarith
  then have "z\<^sup>2 \<le> 2"
    by (simp add: power2_eq_square)
  then have "z \<le> sqrt 2"
    by (rule real_le_rsqrt)
  then have le1: "z / sqrt 2 \<le> 1"
    by simp
  have "996 / 1000 * sqrt 2 < z"
    using sqrt2_le zl by simp
  then have gt: "996 / 1000 < z / sqrt 2"
    by (simp add: pos_less_divide_eq)
  have "cos (1 / 10) < z / sqrt 2"
    using cos_tenth_less gt by linarith
  moreover have "- 1 \<le> cos (1 / 10 :: real)"
    by simp
  ultimately have "arccos (z / sqrt 2) < arccos (cos (1 / 10))"
    using le1 by (intro arccos_less_arccos) simp_all
  also have "arccos (cos (1 / 10 :: real)) = 1 / 10"
    using pi_ge_two by (intro arccos_cos) simp_all
  finally show ?thesis
    by (simp add: t minimumTilt_def)
qed

text \<open>
  C1, at a failing input. \<^verbatim>\<open>rotate\<close> tests the tilt the camera has before the update
  (\<^verbatim>\<open>currentTilt < _minimumTilt && phi.y < 0\<close>), not the tilt the update gives, although
  its comment says that the position is not to come to the up vector. With
  \<^verbatim>\<open>_limitCameraPosition\<close> on, the default pose has the tilt \<open>pi / 4\<close>, inside
  \<open>[minimumTilt, maximumTilt]\<close>. A left-button drag from the pixel \<open>(400, 100)\<close> to the pixel
  \<open>(400, 102)\<close> tilts by \<open>2 * arcsin (240/599)\<close>, more than \<open>pi / 4\<close>: the update is applied,
  the camera is carried over the up axis to the other side (its x coordinate changes sign)
  and ends at a tilt below \<^verbatim>\<open>_minimumTilt\<close>.
\<close>

theorem orbit_drag_below_minimumTilt:
  "limitCameraPosition started
   \<and> minimumTilt \<le> currentTilt started \<and> currentTilt started \<le> maximumTilt
   \<and> vx (position started) < 0
   \<and> 0 < vx (position tiltDragged)
   \<and> currentTilt tiltDragged < minimumTilt"
  using currentTilt_started_in_range vx_tiltDragged currentTilt_tiltDragged
  by simp

text \<open>
  C9. From the default pose, with the previous mouse position \<open>(0, 0)\<close>, the drag to
  \<open>(0.1, 0)\<close> gives \<open>t = (-6, 0)\<close>, clamped to \<open>(-1, 0)\<close>, and \<open>phi = (- pi, 0)\<close>: the tilt
  quaternion is the identity and the yaw is a half turn about the up axis (the turn by
  \<open>- pi\<close> is the turn by \<open>pi\<close>). The camera moves to \<open>(1, 0, 1)\<close>, at the same distance from
  the origin.
\<close>

theorem orbit_half_turn:
  assumes "position s = Vec3 (- 1) 0 1" and "focus s = Vec3 0 0 0"
    and "upVector s = Vec3 0 0 1" and "oldMousePosition s = Vec2 0 0"
  shows "rotate_phi s (Vec2 (1/10) 0) = Vec2 (- pi) 0
     \<and> angleAxis (y2 (rotate_phi s (Vec2 (1/10) 0)))
          (normalize3 (cross (upVector s) (position s))) = Quat 1 0 0 0
     \<and> position (rotate_mouse s (Vec2 (1/10) 0)) =
          quat_rotate (angleAxis pi (upVector s)) (position s)
     \<and> position (rotate_mouse s (Vec2 (1/10) 0)) = Vec3 1 0 1
     \<and> length3 (position (rotate_mouse s (Vec2 (1/10) 0))) = length3 (position s)"
proof -
  let ?m = "Vec2 (1/10) 0"
  have phi: "rotate_phi s ?m = Vec2 (- pi) 0"
    by (simp add: rotate_phi_def rotationalFactor_def assms(4))
  have m: "?m \<noteq> oldMousePosition s"
    by (simp add: assms(4))
  have na: "\<not> closeToPole s ?m"
    by (simp add: closeToPole_def phi)
  have tq: "angleAxis (y2 (rotate_phi s ?m)) (normalize3 (cross (upVector s) (position s))) = Quat 1 0 0 0"
    by (simp add: phi angleAxis_def)
  have rq: "angleAxis (x2 (rotate_phi s ?m)) (upVector s) = Quat 0 0 0 (- 1)"
    by (simp add: phi angleAxis_def assms(3))
  have r: "quat_rotate (quat_mul (Quat 1 0 0 0) (Quat 0 0 0 (- 1))) (Vec3 (- 1) 0 1) = Vec3 1 0 1"
    by (simp add: quat_rotate_def Let_def)
  have c: "clampHeight (Vec3 1 0 1) = Vec3 1 0 1"
    by (simp add: clampHeight_def minimumHeight_def)
  have q: "quat_rotate
        (quat_mul (angleAxis (y2 (rotate_phi s ?m)) (normalize3 (cross (upVector s) (position s))))
                  (angleAxis (x2 (rotate_phi s ?m)) (upVector s)))
        (position s) = Vec3 1 0 1"
    by (subst tq, subst rq, subst assms(1)) (rule r)
  have ax: "cross (upVector s) (position s) \<noteq> Vec3 0 0 0"
    by (simp add: assms(1,3))
  have p: "position (rotate_mouse s ?m) = Vec3 1 0 1"
    using position_rotate [OF m na ax] unfolding Let_def q c by simp
  have h: "quat_rotate (angleAxis pi (upVector s)) (position s) = Vec3 1 0 1"
    by (simp add: angleAxis_def quat_rotate_def Let_def assms(1,3))
  have l: "length3 (Vec3 1 0 1) = length3 (Vec3 (- 1) 0 1)"
    by (simp add: length3_def)
  have e: "position (rotate_mouse s ?m) = quat_rotate (angleAxis pi (upVector s)) (position s)"
    using p h by simp
  have d: "length3 (position (rotate_mouse s ?m)) = length3 (position s)"
    using p l assms(1) by simp
  show ?thesis
    using phi tq e p d by blast
qed

theorem orbit_half_turn_witness:
  "position started = Vec3 (- 1) 0 1 \<and> focus started = Vec3 0 0 0
   \<and> upVector started = Vec3 0 0 1 \<and> oldMousePosition started = Vec2 0 0
   \<and> rotationalFactor = 60
   \<and> rotate_phi started (Vec2 (1/10) 0) = Vec2 (- pi) 0
   \<and> position (rotate_mouse started (Vec2 (1/10) 0)) = Vec3 1 0 1
   \<and> length3 (position (rotate_mouse started (Vec2 (1/10) 0))) = length3 (Vec3 (- 1) 0 1)"
proof -
  note t = orbit_half_turn [of started, OF started_fields(1,2,3,5)]
  have a: "rotate_phi started (Vec2 (1/10) 0) = Vec2 (- pi) 0"
    using t by blast
  have b: "position (rotate_mouse started (Vec2 (1/10) 0)) = Vec3 1 0 1"
    using t by blast
  have "length3 (position (rotate_mouse started (Vec2 (1/10) 0))) = length3 (position started)"
    using t by blast
  then have c: "length3 (position (rotate_mouse started (Vec2 (1/10) 0))) = length3 (Vec3 (- 1) 0 1)"
    by (simp only: started_fields)
  show ?thesis
    using a b c by (simp add: rotationalFactor_def)
qed

end
